theory Spec2Isabelle
  imports Main
begin

section \<open>Python values and string formatting\<close>

text \<open>
  The launcher passes its parameters through untyped; the values it formats into a
  command line are \<open>None\<close>, booleans, integers and strings. A string is a sequence
  of characters, each a code point below 256.
\<close>

datatype pyval = PyNone | PyBool bool | PyInt int | PyStr string

datatype error =
    KeyError string
  | ValueError string
  | TypeError string

text \<open>Truthiness, as tested by \<open>if x:\<close> and by \<open>x or y\<close>.\<close>

fun truthy :: "pyval \<Rightarrow> bool" where
  "truthy PyNone = False"
| "truthy (PyBool b) = b"
| "truthy (PyInt i) = (i \<noteq> 0)"
| "truthy (PyStr s) = (s \<noteq> [])"

text \<open>The comparison \<open>x != 1\<close>: the integer one and \<open>True\<close> are equal to one.\<close>

fun ne_one :: "pyval \<Rightarrow> bool" where
  "ne_one (PyInt i) = (i \<noteq> 1)"
| "ne_one (PyBool b) = (\<not> b)"
| "ne_one v = True"

definition digit_char :: "nat \<Rightarrow> char" where
  "digit_char d = ''0123456789'' ! d"

fun str_nat :: "nat \<Rightarrow> string" where
  "str_nat n = (if n < 10 then [digit_char n] else str_nat (n div 10) @ [digit_char (n mod 10)])"

definition str_int :: "int \<Rightarrow> string" where
  "str_int i = (if i < 0 then CHR ''-'' # str_nat (nat (- i)) else str_nat (nat i))"

text \<open>\<open>str(x)\<close>, which is what a replacement field without a format spec inserts.\<close>

fun py_str :: "pyval \<Rightarrow> string" where
  "py_str PyNone = ''None''"
| "py_str (PyBool b) = (if b then ''True'' else ''False'')"
| "py_str (PyInt i) = str_int i"
| "py_str (PyStr s) = s"

text \<open>
  \<open>template.format(**env)\<close> for templates whose replacement fields are plain names
  (no \<open>{{\<close> escapes, conversions or format specs: the templates of this module have
  none). The scanner is either in literal text (\<open>None\<close>) or inside a field whose name
  read so far is kept reversed (\<open>Some\<close>). A name missing from \<open>env\<close> is a KeyError,
  an unmatched brace a ValueError.
\<close>

fun py_format :: "(string \<times> pyval) list \<Rightarrow> string option \<Rightarrow> string \<Rightarrow> error + string" where
  "py_format env None [] = Inr []"
| "py_format env (Some f) [] = Inl (ValueError ''expected } before end of string'')"
| "py_format env None (c # cs) =
     (if c = CHR ''{'' then py_format env (Some []) cs
      else if c = CHR ''}'' then Inl (ValueError ''Single } encountered in format string'')
      else (case py_format env None cs of Inl e \<Rightarrow> Inl e | Inr r \<Rightarrow> Inr (c # r)))"
| "py_format env (Some f) (c # cs) =
     (if c = CHR ''}'' then
        (case map_of env (rev f) of
           None \<Rightarrow> Inl (KeyError (rev f))
         | Some v \<Rightarrow> (case py_format env None cs of Inl e \<Rightarrow> Inl e | Inr r \<Rightarrow> Inr (py_str v @ r)))
      else py_format env (Some (c # f)) cs)"

definition format :: "string \<Rightarrow> (string \<times> pyval) list \<Rightarrow> error + string" where
  "format template env = py_format env None template"

text \<open>\<open>a or b\<close> on values.\<close>

definition py_or :: "pyval \<Rightarrow> pyval \<Rightarrow> pyval" where
  "py_or a b = (if truthy a then a else b)"

section \<open>Terminal colours\<close>

definition ESC :: char where "ESC = char_of (27::nat)"

definition FAIL :: string where "FAIL = ESC # ''[91m''"
definition ENDC :: string where "ENDC = ESC # ''[0m''"
definition BOLD :: string where "BOLD = ESC # ''[1m''"
definition WARNING :: string where "WARNING = ESC # ''[93m''"

section \<open>Command lines\<close>

text \<open>
  The command text built by \<open>start_scheduler\<close>. \<open>sys_executable\<close> is the path of the
  local interpreter, a value of the environment.
\<close>

definition start_scheduler_cmd ::
  "string \<Rightarrow> string option \<Rightarrow> pyval \<Rightarrow> pyval \<Rightarrow> pyval \<Rightarrow> error + string" where
  "start_scheduler_cmd sys_executable logdir addr port remote_python =
     (case format ''{python} -m distributed.cli.dask_scheduler --port {port}''
             [(''python'', py_or remote_python (PyStr sys_executable)), (''port'', port)] of
        Inl e \<Rightarrow> Inl e
      | Inr cmd \<Rightarrow>
          (case logdir of
             None \<Rightarrow> Inr cmd
           | Some d \<Rightarrow>
               (case format ''&> {logdir}/dask_scheduler_{addr}:{port}.log''
                       [(''addr'', addr), (''port'', port), (''logdir'', PyStr d)] of
                  Inl e \<Rightarrow> Inl e
                | Inr redirect \<Rightarrow> Inr ((''mkdir -p '' @ d @ '' && '' @ cmd) @ redirect))))"

text \<open>
  The command text built by \<open>start_worker\<close>, with the parameters in the order of the
  source. The template is assembled first, depending on which parameters are set, and
  formatted once; the local directory and the log redirection are added afterwards.
\<close>

definition worker_template :: "pyval \<Rightarrow> bool \<Rightarrow> pyval \<Rightarrow> pyval \<Rightarrow> pyval \<Rightarrow> string" where
  "worker_template n_workers nohost memory_limit worker_port nanny_port =
     (let cmd = (''{python} -m {remote_dask_worker} '' @
                 ''{scheduler_addr}:{scheduler_port} '' @
                 ''--nthreads {nthreads}'') @
                (if ne_one n_workers then '' --nworkers {n_workers}'' else []);
          cmd = (if \<not> nohost then cmd @ '' --host {worker_addr}'' else cmd);
          cmd = (if truthy memory_limit then cmd @ '' --memory-limit {memory_limit}'' else cmd);
          cmd = (if truthy worker_port then cmd @ '' --worker-port {worker_port}'' else cmd);
          cmd = (if truthy nanny_port then cmd @ '' --nanny-port {nanny_port}'' else cmd)
      in cmd)"

definition start_worker_cmd ::
  "string \<Rightarrow> string option \<Rightarrow> pyval \<Rightarrow> pyval \<Rightarrow> pyval \<Rightarrow> pyval \<Rightarrow> pyval \<Rightarrow> bool \<Rightarrow>
   pyval \<Rightarrow> pyval \<Rightarrow> pyval \<Rightarrow> pyval \<Rightarrow> pyval \<Rightarrow> pyval \<Rightarrow> error + string" where
  "start_worker_cmd sys_executable logdir scheduler_addr scheduler_port worker_addr nthreads
       n_workers nohost memory_limit worker_port nanny_port remote_python remote_dask_worker
       local_directory =
     (case format (worker_template n_workers nohost memory_limit worker_port nanny_port)
             [(''python'', py_or remote_python (PyStr sys_executable)),
              (''remote_dask_worker'', remote_dask_worker),
              (''scheduler_addr'', scheduler_addr),
              (''scheduler_port'', scheduler_port),
              (''worker_addr'', worker_addr),
              (''nthreads'', nthreads),
              (''n_workers'', n_workers),
              (''memory_limit'', memory_limit),
              (''worker_port'', worker_port),
              (''nanny_port'', nanny_port)] of
        Inl e \<Rightarrow> Inl e
      | Inr cmd \<Rightarrow>
          (case (if local_directory \<noteq> PyNone
                 then (case format '' --local-directory {local_directory}''
                              [(''local_directory'', local_directory)] of
                         Inl e \<Rightarrow> Inl e | Inr l \<Rightarrow> Inr (cmd @ l))
                 else Inr cmd) of
             Inl e \<Rightarrow> Inl e
           | Inr cmd \<Rightarrow>
               (case logdir of
                  None \<Rightarrow> Inr cmd
                | Some d \<Rightarrow>
                    (case format ''&> {logdir}/dask_scheduler_{addr}.log''
                            [(''addr'', worker_addr), (''logdir'', PyStr d)] of
                       Inl e \<Rightarrow> Inl e
                     | Inr redirect \<Rightarrow> Inr ((''mkdir -p '' @ d @ '' && '' @ cmd) @ redirect)))))"

text \<open>
  Reading a command line back: its words are the pieces between single spaces, and its
  long options are the words that begin with two dashes.
\<close>

fun split_sp :: "string \<Rightarrow> string list" where
  "split_sp [] = [[]]"
| "split_sp (c # cs) =
     (if c = CHR '' '' then [] # split_sp cs
      else (case split_sp cs of [] \<Rightarrow> [[c]] | w # ws \<Rightarrow> (c # w) # ws))"

definition is_flag :: "string \<Rightarrow> bool" where
  "is_flag w = (take 2 w = ''--'')"

definition flags_of :: "string \<Rightarrow> string list" where
  "flags_of cmd = filter is_flag (split_sp cmd)"

text \<open>A parameter renders to a plain word: no space in it, and not a long option itself.\<close>

definition plain :: "string \<Rightarrow> bool" where
  "plain s = (CHR '' '' \<notin> set s \<and> \<not> is_flag s)"

text \<open>
  Helpers for reasoning about command lines: the keyword arguments of the worker
  template, an optional \<open> --flag value\<close> piece, and what a remainder of the command
  contributes when it follows a plain word.
\<close>

definition worker_env ::
  "pyval \<Rightarrow> pyval \<Rightarrow> pyval \<Rightarrow> pyval \<Rightarrow> pyval \<Rightarrow> pyval \<Rightarrow> pyval \<Rightarrow> pyval \<Rightarrow> pyval \<Rightarrow> pyval \<Rightarrow>
   (string \<times> pyval) list" where
  "worker_env python rdw saddr sport waddr nt k mem wport nport =
     [(''python'', python),
      (''remote_dask_worker'', rdw),
      (''scheduler_addr'', saddr),
      (''scheduler_port'', sport),
      (''worker_addr'', waddr),
      (''nthreads'', nt),
      (''n_workers'', k),
      (''memory_limit'', mem),
      (''worker_port'', wport),
      (''nanny_port'', nport)]"

definition seg :: "bool \<Rightarrow> string \<Rightarrow> string \<Rightarrow> string" where
  "seg c f v = (if c then CHR '' '' # f @ CHR '' '' # v else [])"

definition good :: "string \<Rightarrow> string list \<Rightarrow> bool" where
  "good R F = (\<forall>w. plain w \<longrightarrow> flags_of (w @ R) = F)"

text \<open>
  The scheduler command as the specification words it, with a space before the
  redirection.
\<close>

definition spec_scheduler_cmd :: "string \<Rightarrow> string option \<Rightarrow> string \<Rightarrow> string \<Rightarrow> string" where
  "spec_scheduler_cmd python logdir addr port =
     (case logdir of
        None \<Rightarrow> python @ '' -m distributed.cli.dask_scheduler --port '' @ port
      | Some d \<Rightarrow> ''mkdir -p '' @ d @ '' && '' @
                  python @ '' -m distributed.cli.dask_scheduler --port '' @ port @
                  '' &> '' @ d @ ''/dask_scheduler_'' @ addr @ '':'' @ port @ ''.log'')"

text \<open>The worker command in closed form; \<open>start_worker_cmd\<close> is shown to return it.\<close>

definition worker_cmd_text ::
  "string \<Rightarrow> string option \<Rightarrow> pyval \<Rightarrow> pyval \<Rightarrow> pyval \<Rightarrow> pyval \<Rightarrow> pyval \<Rightarrow> bool \<Rightarrow>
   pyval \<Rightarrow> pyval \<Rightarrow> pyval \<Rightarrow> pyval \<Rightarrow> pyval \<Rightarrow> pyval \<Rightarrow> string" where
  "worker_cmd_text ex ld saddr sport waddr nt k nh mem wport nport rp rdw ldir =
     (case ld of None \<Rightarrow> [] | Some d \<Rightarrow> ''mkdir -p '' @ d @ '' && '')
     @ py_str (py_or rp (PyStr ex)) @ '' -m '' @ py_str rdw @ '' '' @ py_str saddr @ '':'' @ py_str sport
     @ '' --nthreads '' @ py_str nt
     @ (if ne_one k then '' --nworkers '' @ py_str k else [])
     @ (if \<not> nh then '' --host '' @ py_str waddr else [])
     @ (if truthy mem then '' --memory-limit '' @ py_str mem else [])
     @ (if truthy wport then '' --worker-port '' @ py_str wport else [])
     @ (if truthy nport then '' --nanny-port '' @ py_str nport else [])
     @ (if ldir \<noteq> PyNone then '' --local-directory '' @ py_str ldir else [])
     @ (case ld of None \<Rightarrow> [] | Some d \<Rightarrow>
          ''&> '' @ d @ ''/dask_scheduler_'' @ py_str waddr @ ''.log'')"

text \<open>The scheduler command in closed form.\<close>

definition scheduler_cmd_text :: "string \<Rightarrow> string option \<Rightarrow> pyval \<Rightarrow> pyval \<Rightarrow> pyval \<Rightarrow> string" where
  "scheduler_cmd_text ex ld addr prt rp =
     (case ld of None \<Rightarrow> [] | Some d \<Rightarrow> ''mkdir -p '' @ d @ '' && '')
     @ py_str (py_or rp (PyStr ex)) @ '' -m distributed.cli.dask_scheduler --port '' @ py_str prt
     @ (case ld of None \<Rightarrow> [] | Some d \<Rightarrow>
          ''&> '' @ d @ ''/dask_scheduler_'' @ py_str addr @ '':'' @ py_str prt @ ''.log'')"

section \<open>Processes, queues and threads\<close>

text \<open>
  A command dictionary is a record of its keys; queues and threads are identified by
  numbers handed out by the world. The scheduler's dictionary has a \<open>port\<close> key, a
  worker's has none.
\<close>

record cmd_dict =
  cmd :: string
  label :: string
  address :: pyval
  port :: "pyval option"
  input_queue :: nat
  output_queue :: nat
  ssh_username :: pyval
  ssh_port :: pyval
  ssh_private_key :: pyval

record handle = cmd_dict +
  thread :: nat

text \<open>
  What the program does to the outside, in the order it does it: threads started,
  items put on a queue, threads joined, attributes assigned on the cluster object,
  warnings, console lines; and, inside a runner thread, connection attempts, printed
  tracebacks, sleeps, the remote command started and the process killed.
\<close>

datatype event =
    ThreadStart nat cmd_dict
  | Put nat string
  | Join nat
  | Store string pyval
  | Warn string
  | Print string
  | Connect
  | Traceback
  | Sleep nat
  | ExecCommand string
  | ProcessExit int

record world =
  sys_executable :: string
  now :: string
  next_id :: nat
  events :: "event list"

definition emit :: "event \<Rightarrow> world \<Rightarrow> world" where
  "emit e w = w\<lparr>events := events w @ [e]\<rparr>"

definition put :: "nat \<Rightarrow> string \<Rightarrow> world \<Rightarrow> world" where
  "put q x w = emit (Put q x) w"

definition join :: "nat \<Rightarrow> world \<Rightarrow> world" where
  "join t w = emit (Join t) w"

definition store :: "string \<Rightarrow> pyval \<Rightarrow> world \<Rightarrow> world" where
  "store n v w = emit (Store n v) w"

text \<open>
  The tail shared by both launchers: two fresh queues, the dictionary, a daemon thread
  running \<open>async_ssh\<close> on it, and the dictionary merged with the thread.
\<close>

definition start_scheduler ::
  "string option \<Rightarrow> pyval \<Rightarrow> pyval \<Rightarrow> pyval \<Rightarrow> pyval \<Rightarrow> pyval \<Rightarrow> pyval \<Rightarrow> world \<Rightarrow>
   (error + handle) \<times> world" where
  "start_scheduler ld addr prt user sshp key rpy w =
     (case start_scheduler_cmd (sys_executable w) ld addr prt rpy of
        Inl e \<Rightarrow> (Inl e, w)
      | Inr c \<Rightarrow>
          (let lbl = BOLD @ ''scheduler '' @ py_str addr @ '':'' @ py_str prt @ ENDC;
               iq = next_id w;
               oq = next_id w + 1;
               d = \<lparr>cmd = c, label = lbl, address = addr, port = Some prt,
                    input_queue = iq, output_queue = oq,
                    ssh_username = user, ssh_port = sshp, ssh_private_key = key\<rparr>;
               t = next_id w + 2;
               w' = emit (ThreadStart t d) (w\<lparr>next_id := next_id w + 3\<rparr>)
           in (Inr (cmd_dict.extend d (handle.fields t)), w')))"

definition start_worker ::
  "string option \<Rightarrow> pyval \<Rightarrow> pyval \<Rightarrow> pyval \<Rightarrow> pyval \<Rightarrow> pyval \<Rightarrow> pyval \<Rightarrow> pyval \<Rightarrow> pyval \<Rightarrow>
   bool \<Rightarrow> pyval \<Rightarrow> pyval \<Rightarrow> pyval \<Rightarrow> pyval \<Rightarrow> pyval \<Rightarrow> pyval \<Rightarrow> world \<Rightarrow>
   (error + handle) \<times> world" where
  "start_worker ld saddr sport waddr nt nw user sshp key nh mem wport nport rpy rdw ldir w =
     (case start_worker_cmd (sys_executable w) ld saddr sport waddr nt nw nh mem wport nport
             rpy rdw ldir of
        Inl e \<Rightarrow> (Inl e, w)
      | Inr c \<Rightarrow>
          (let lbl = ''worker '' @ py_str waddr;
               iq = next_id w;
               oq = next_id w + 1;
               d = \<lparr>cmd = c, label = lbl, address = waddr, port = None,
                    input_queue = iq, output_queue = oq,
                    ssh_username = user, ssh_port = sshp, ssh_private_key = key\<rparr>;
               t = next_id w + 2;
               w' = emit (ThreadStart t d) (w\<lparr>next_id := next_id w + 3\<rparr>)
           in (Inr (cmd_dict.extend d (handle.fields t)), w')))"

section \<open>The cluster\<close>

text \<open>
  The arguments of the constructor, one field per parameter of the signature, and the
  catch-all keyword dictionary in the order the caller wrote it.
\<close>

record init_args =
  arg_scheduler_addr :: pyval
  arg_scheduler_port :: pyval
  arg_worker_addrs :: "pyval list"
  arg_nthreads :: pyval
  arg_n_workers :: pyval
  arg_ssh_username :: pyval
  arg_ssh_port :: pyval
  arg_ssh_private_key :: pyval
  arg_nohost :: bool
  arg_logdir :: "string option"
  arg_remote_python :: pyval
  arg_memory_limit :: pyval
  arg_worker_port :: pyval
  arg_nanny_port :: pyval
  arg_remote_dask_worker :: pyval
  arg_local_directory :: pyval
  kwargs :: "(string \<times> pyval) list"

text \<open>The defaults of the signature, for a call that gives the three positional arguments.\<close>

definition default_args :: "pyval \<Rightarrow> pyval \<Rightarrow> pyval list \<Rightarrow> init_args" where
  "default_args saddr sport waddrs =
     \<lparr>arg_scheduler_addr = saddr, arg_scheduler_port = sport, arg_worker_addrs = waddrs,
      arg_nthreads = PyInt 0, arg_n_workers = PyNone, arg_ssh_username = PyNone,
      arg_ssh_port = PyInt 22, arg_ssh_private_key = PyNone, arg_nohost = False,
      arg_logdir = None, arg_remote_python = PyNone, arg_memory_limit = PyNone,
      arg_worker_port = PyNone, arg_nanny_port = PyNone,
      arg_remote_dask_worker = PyStr ''distributed.cli.dask_worker'',
      arg_local_directory = PyNone, kwargs = []\<rparr>"

record cluster =
  scheduler_addr :: pyval
  scheduler_port :: pyval
  nthreads :: pyval
  n_workers :: pyval
  cluster_ssh_username :: pyval
  cluster_ssh_port :: pyval
  cluster_ssh_private_key :: pyval
  nohost :: bool
  remote_python :: pyval
  memory_limit :: pyval
  worker_port :: pyval
  nanny_port :: pyval
  remote_dask_worker :: pyval
  local_directory :: pyval
  logdir :: "string option"
  threads :: "nat list"
  scheduler :: handle
  workers :: "handle list"

definition add_worker :: "cluster \<Rightarrow> pyval \<Rightarrow> world \<Rightarrow> (error + cluster) \<times> world" where
  "add_worker self addr w =
     (case start_worker (logdir self) (scheduler_addr self) (scheduler_port self) addr
             (nthreads self) (n_workers self) (cluster_ssh_username self)
             (cluster_ssh_port self) (cluster_ssh_private_key self) (nohost self)
             (memory_limit self) (worker_port self) (nanny_port self) (remote_python self)
             (remote_dask_worker self) (local_directory self) w of
        (Inl e, w') \<Rightarrow> (Inl e, w')
      | (Inr h, w') \<Rightarrow> (Inr (self\<lparr>workers := workers self @ [h]\<rparr>), w'))"

text \<open>The loop \<open>for i, addr in enumerate(worker_addrs): self.add_worker(addr)\<close>.\<close>

fun add_workers :: "cluster \<Rightarrow> pyval list \<Rightarrow> world \<Rightarrow> (error + cluster) \<times> world" where
  "add_workers self [] w = (Inr self, w)"
| "add_workers self (addr # addrs) w =
     (case add_worker self addr w of
        (Inl e, w') \<Rightarrow> (Inl e, w')
      | (Inr self', w') \<Rightarrow> add_workers self' addrs w')"

text \<open>
  The handle that \<open>add_worker\<close> appends for an address when the next free identifier
  is \<open>n\<close>, and the handles for a list of addresses, in closed form.
\<close>

definition worker_handle :: "string \<Rightarrow> cluster \<Rightarrow> pyval \<Rightarrow> nat \<Rightarrow> handle" where
  "worker_handle ex self addr n =
     \<lparr>cmd = worker_cmd_text ex (logdir self) (scheduler_addr self) (scheduler_port self) addr
              (nthreads self) (n_workers self) (nohost self) (memory_limit self)
              (worker_port self) (nanny_port self) (remote_python self)
              (remote_dask_worker self) (local_directory self),
      label = ''worker '' @ py_str addr, address = addr, port = None,
      input_queue = n, output_queue = n + 1,
      ssh_username = cluster_ssh_username self, ssh_port = cluster_ssh_port self,
      ssh_private_key = cluster_ssh_private_key self,
      thread = n + 2\<rparr>"

fun worker_handles :: "string \<Rightarrow> cluster \<Rightarrow> pyval list \<Rightarrow> nat \<Rightarrow> handle list" where
  "worker_handles ex self [] n = []"
| "worker_handles ex self (addr # addrs) n =
     worker_handle ex self addr n # worker_handles ex self addrs (n + 3)"

text \<open>The thread starts that go with a list of handles.\<close>

definition worker_starts :: "handle list \<Rightarrow> event list" where
  "worker_starts hs = map (\<lambda>h. ThreadStart (thread h) (cmd_dict.truncate h)) hs"

text \<open>The handle that \<open>start_scheduler\<close> returns when the next free identifier is \<open>n\<close>.\<close>

definition scheduler_handle ::
  "string \<Rightarrow> string option \<Rightarrow> pyval \<Rightarrow> pyval \<Rightarrow> pyval \<Rightarrow> pyval \<Rightarrow> pyval \<Rightarrow> pyval \<Rightarrow> nat \<Rightarrow> handle" where
  "scheduler_handle ex ld addr prt user sshp key rpy n =
     \<lparr>cmd = scheduler_cmd_text ex ld addr prt rpy,
      label = BOLD @ ''scheduler '' @ py_str addr @ '':'' @ py_str prt @ ENDC,
      address = addr, port = Some prt,
      input_queue = n, output_queue = n + 1,
      ssh_username = user, ssh_port = sshp, ssh_private_key = key,
      thread = n + 2\<rparr>"

text \<open>\<open>kwargs.pop("nprocs", None)\<close>: the value and the dictionary without the key.\<close>

definition pop_nprocs :: "(string \<times> pyval) list \<Rightarrow> pyval \<times> (string \<times> pyval) list" where
  "pop_nprocs kw =
     (case map_of kw ''nprocs'' of
        None \<Rightarrow> (PyNone, kw)
      | Some v \<Rightarrow> (v, filter (\<lambda>kv. fst kv \<noteq> ''nprocs'') kw))"

text \<open>\<open>', '.join(keys)\<close>.\<close>

fun join_comma :: "string list \<Rightarrow> string" where
  "join_comma [] = []"
| "join_comma [k] = k"
| "join_comma (k # ks) = k @ '', '' @ join_comma ks"

text \<open>The legacy and the current worker count, lines 366 to 378 of the source.\<close>

definition resolve_n_workers :: "pyval \<Rightarrow> pyval \<Rightarrow> world \<Rightarrow> (error + pyval) \<times> world" where
  "resolve_n_workers nprocs nw w =
     (if nprocs \<noteq> PyNone \<and> nw \<noteq> PyNone then
        (Inl (ValueError ''Both nprocs and n_workers were specified. Use n_workers only.''), w)
      else if nprocs \<noteq> PyNone then
        (Inr nprocs,
         emit (Warn (''The nprocs argument will be removed in a future release. It has been '' @
                     ''renamed to n_workers.'')) w)
      else if nw = PyNone then (Inr (PyInt 1), w)
      else (Inr nw, w))"

text \<open>\<open>os.path.join\<close> of two components, on a POSIX system.\<close>

definition os_path_join :: "string \<Rightarrow> string \<Rightarrow> string" where
  "os_path_join a b =
     (if take 1 b = ''/'' then b
      else if a = [] \<or> last a = CHR ''/'' then a @ b
      else a @ ''/'' @ b)"

definition DQUOTE :: char where "DQUOTE = CHR 0x22"

definition opt_val :: "string option \<Rightarrow> pyval" where
  "opt_val x = (case x of None \<Rightarrow> PyNone | Some s \<Rightarrow> PyStr s)"

text \<open>
  The attributes of the object once the scheduler has been started: the arguments as
  given, the resolved worker count, the log directory with its time stamp, and no
  worker yet.
\<close>

definition new_cluster :: "init_args \<Rightarrow> pyval \<Rightarrow> string option \<Rightarrow> handle \<Rightarrow> cluster" where
  "new_cluster a nw ld s =
     \<lparr>scheduler_addr = arg_scheduler_addr a,
      scheduler_port = arg_scheduler_port a,
      nthreads = arg_nthreads a,
      n_workers = nw,
      cluster_ssh_username = arg_ssh_username a,
      cluster_ssh_port = arg_ssh_port a,
      cluster_ssh_private_key = arg_ssh_private_key a,
      nohost = arg_nohost a,
      remote_python = arg_remote_python a,
      memory_limit = arg_memory_limit a,
      worker_port = arg_worker_port a,
      nanny_port = arg_nanny_port a,
      remote_dask_worker = arg_remote_dask_worker a,
      local_directory = arg_local_directory a,
      logdir = ld,
      threads = [],
      scheduler = s,
      workers = []\<rparr>"

text \<open>
  The constructor. The cluster object exists only when it returns; the launch
  parameters it assigns on the object on the way are in the events, in the order of the
  source (the thread list, the scheduler and the workers are fields of the result only).
\<close>

definition SSHCluster_init :: "init_args \<Rightarrow> world \<Rightarrow> (error + cluster) \<times> world" where
  "SSHCluster_init a w0 =
     (let w = store ''scheduler_addr'' (arg_scheduler_addr a) w0;
          w = store ''scheduler_port'' (arg_scheduler_port a) w;
          w = store ''nthreads'' (arg_nthreads a) w;
          (nprocs, kw) = pop_nprocs (kwargs a)
      in if kw \<noteq> [] then
           (Inl (TypeError (''__init__() got an unexpected keyword argument '' @
                            join_comma (map fst kw))), w)
         else
           (case resolve_n_workers nprocs (arg_n_workers a) w of
              (Inl e, w) \<Rightarrow> (Inl e, w)
            | (Inr nw, w) \<Rightarrow>
                (let w = store ''n_workers'' nw w;
                     w = store ''ssh_username'' (arg_ssh_username a) w;
                     w = store ''ssh_port'' (arg_ssh_port a) w;
                     w = store ''ssh_private_key'' (arg_ssh_private_key a) w;
                     w = store ''nohost'' (PyBool (arg_nohost a)) w;
                     w = store ''remote_python'' (arg_remote_python a) w;
                     w = store ''memory_limit'' (arg_memory_limit a) w;
                     w = store ''worker_port'' (arg_worker_port a) w;
                     w = store ''nanny_port'' (arg_nanny_port a) w;
                     w = store ''remote_dask_worker'' (arg_remote_dask_worker a) w;
                     w = store ''local_directory'' (arg_local_directory a) w;
                     (ld, w) =
                        (case arg_logdir a of
                           None \<Rightarrow> (None, w)
                         | Some d \<Rightarrow>
                             (let d' = os_path_join d (''dask-ssh_'' @ now w)
                              in (Some d',
                                  emit (Print (WARNING @ ''Output will be redirected to logfiles '' @
                                         ''stored locally on individual worker nodes under '' @
                                         [DQUOTE] @ d' @ [DQUOTE] @ ''.'' @ ENDC)) w)));
                     w = store ''logdir'' (opt_val ld) w
                 in (case start_scheduler ld (arg_scheduler_addr a) (arg_scheduler_port a)
                            (arg_ssh_username a) (arg_ssh_port a) (arg_ssh_private_key a)
                            (arg_remote_python a) w of
                       (Inl e, w) \<Rightarrow> (Inl e, w)
                     | (Inr s, w) \<Rightarrow>
                         add_workers (new_cluster a nw ld s)
                           (arg_worker_addrs a) w))))"

text \<open>\<open>shutdown\<close>: the loop over \<open>[self.scheduler] + self.workers\<close>.\<close>

fun shutdown_loop :: "handle list \<Rightarrow> world \<Rightarrow> world" where
  "shutdown_loop [] w = w"
| "shutdown_loop (process # rest) w =
     shutdown_loop rest (join (thread process) (put (input_queue process) ''shutdown'' w))"

definition shutdown :: "cluster \<Rightarrow> world \<Rightarrow> world" where
  "shutdown self w = shutdown_loop ([scheduler self] @ workers self) w"

definition enter :: "cluster \<Rightarrow> cluster" where
  "enter self = self"

text \<open>\<open>__exit__(self, *args)\<close>: the exception information is not looked at.\<close>

definition exit_cluster :: "cluster \<Rightarrow> error option \<Rightarrow> world \<Rightarrow> world" where
  "exit_cluster self args w = shutdown self w"

text \<open>
  The statement \<open>with cluster as c: body\<close>. The body works on the object that
  \<open>__enter__\<close> returned, may change it, and ends normally or with an exception;
  \<open>__exit__\<close> is then called on the object with the exception, if any, and since it
  returns nothing the exception goes on to the caller.
\<close>

definition with_cluster ::
  "cluster \<Rightarrow> (cluster \<Rightarrow> world \<Rightarrow> (error + 'a) \<times> cluster \<times> world) \<Rightarrow> world \<Rightarrow>
   (error + 'a) \<times> world" where
  "with_cluster self body w =
     (case body (enter self) w of
        (r, self', w') \<Rightarrow>
          (r, exit_cluster self' (case r of Inl e \<Rightarrow> Some e | Inr v \<Rightarrow> None) w'))"

section \<open>The remote command runner\<close>

text \<open>
  One call of \<open>ssh.connect\<close> succeeds, raises an SSHException (which includes
  PasswordRequiredException and the other authentication errors) or raises something
  else. The runner is given the result of each attempt, numbered from zero.
\<close>

datatype connect_result = ConnectOK | SSHError string | OtherError string

datatype outcome = Proceeds | Exits int | Raises string

definition SQUOTE :: char where "SQUOTE = CHR 0x27"

text \<open>The loop \<open>while True\<close> around \<open>ssh.connect\<close>, lines 40 to 105.\<close>

function connect_loop ::
  "(nat \<Rightarrow> connect_result) \<Rightarrow> cmd_dict \<Rightarrow> nat \<Rightarrow> nat \<Rightarrow> event list \<Rightarrow> outcome \<times> event list" where
  "connect_loop ssh_connect d attempt retries tr =
     (case ssh_connect attempt of
        ConnectOK \<Rightarrow> (Proceeds, tr @ [Connect])
      | OtherError e \<Rightarrow> (Raises e, tr @ [Connect])
      | SSHError e \<Rightarrow>
          (let tr = tr @ [Connect,
                          Print (''[ dask-ssh ] : '' @ FAIL @
                                 ''SSH connection error when connecting to '' @
                                 py_str (address d) @ '':'' @ py_str (ssh_port d) @
                                 '' to run '' @ [SQUOTE] @ cmd d @ [SQUOTE] @ ENDC),
                          Print (FAIL @ ''               SSH reported this exception: '' @ e @ ENDC),
                          Traceback];
               retries = retries + 1
           in if retries \<ge> 3 then
                (Exits 1,
                 tr @ [Print (''[ dask-ssh ] : '' @ FAIL @
                              ''SSH connection failed after 3 retries. Exiting.'' @ ENDC),
                       ProcessExit 1])
              else
                connect_loop ssh_connect d (attempt + 1) retries
                  (tr @ [Print (''               '' @ FAIL @ ''Retrying... (attempt '' @
                                str_nat retries @ ''/3)'' @ ENDC),
                         Sleep 1])))"
  by pat_completeness auto
termination
  by (relation "measure (\<lambda>(ssh_connect, d, attempt, retries, tr). 3 - retries)") auto

text \<open>
  \<open>async_ssh\<close> from its start to the call of \<open>exec_command\<close>: the connection phase,
  and, only when that left the loop by \<open>break\<close>, the remote command started in an
  interactive shell.
\<close>

definition async_ssh :: "(nat \<Rightarrow> connect_result) \<Rightarrow> cmd_dict \<Rightarrow> outcome \<times> event list" where
  "async_ssh ssh_connect d =
     (case connect_loop ssh_connect d 0 0 [] of
        (Proceeds, tr) \<Rightarrow>
          (Proceeds,
           tr @ [Print (''[ '' @ label d @ '' ] : '' @ cmd d),
                 ExecCommand (''$SHELL -i -c '' @ [SQUOTE] @ cmd d @ [SQUOTE])])
      | (r, tr) \<Rightarrow> (r, tr))"

text \<open>
  Reading a trace: the connection attempts, sleeps, start of the remote command and
  process exit in it, in their order; and whether the first \<open>n\<close> connection attempts
  all raise an SSH failure.
\<close>

definition timeline :: "event list \<Rightarrow> event list" where
  "timeline tr =
     filter (\<lambda>e. case e of Connect \<Rightarrow> True | Sleep n \<Rightarrow> True | ExecCommand c \<Rightarrow> True
                 | ProcessExit s \<Rightarrow> True | _ \<Rightarrow> False) tr"

definition ssh_fails :: "(nat \<Rightarrow> connect_result) \<Rightarrow> nat \<Rightarrow> bool" where
  "ssh_fails c n = list_all (\<lambda>i. case c i of SSHError e \<Rightarrow> True | _ \<Rightarrow> False) [0..<n]"

definition thread_starts :: "event list \<Rightarrow> nat" where
  "thread_starts tr = length (filter (\<lambda>e. case e of ThreadStart t d \<Rightarrow> True | _ \<Rightarrow> False) tr)"

text \<open>
  \<open>str.rstrip()\<close>: the characters for which \<open>isspace\<close> holds. Among the code
  points below 256 these are the tab, line feed, vertical tab, form feed and carriage
  return (9 to 13), the four separators 28 to 31, the space (32), the next-line
  control U+0085 (133) and the no-break space U+00A0 (160).
\<close>

definition is_space :: "char \<Rightarrow> bool" where
  "is_space c = (of_char c \<in> {9, 10, 11, 12, 13, 28, 29, 30, 31, 32, 133, 160 :: nat})"

definition rstrip :: "string \<Rightarrow> string" where
  "rstrip s = rev (dropWhile is_space (rev s))"

text \<open>What is put on the output queue for a line of stdout and for a line of stderr.\<close>

definition stdout_entry :: "cmd_dict \<Rightarrow> string \<Rightarrow> string" where
  "stdout_entry d line = ''[ '' @ label d @ '' ] : '' @ line"

definition stderr_entry :: "cmd_dict \<Rightarrow> string \<Rightarrow> string" where
  "stderr_entry d line = (''[ '' @ label d @ '' ] : '') @ FAIL @ line @ ENDC"

text \<open>
  A call of \<open>readline\<close> on the channel returns a line, returns the empty string at the
  end of the stream, or raises a timeout. The two readers take what the next calls of
  \<open>readline\<close> will give (when the list is used up the stream has ended) and return
  what they did not consume.
\<close>

datatype readline = Line string | Timeout

fun read_from_stdout :: "cmd_dict \<Rightarrow> readline list \<Rightarrow> world \<Rightarrow> readline list \<times> world" where
  "read_from_stdout d [] w = ([], w)"
| "read_from_stdout d (Timeout # rest) w = (rest, w)"
| "read_from_stdout d (Line line # rest) w =
     (if length line > 0
      then read_from_stdout d rest (put (output_queue d) (stdout_entry d (rstrip line)) w)
      else (rest, w))"

fun read_from_stderr :: "cmd_dict \<Rightarrow> readline list \<Rightarrow> world \<Rightarrow> readline list \<times> world" where
  "read_from_stderr d [] w = ([], w)"
| "read_from_stderr d (Timeout # rest) w = (rest, w)"
| "read_from_stderr d (Line line # rest) w =
     (if length line > 0
      then read_from_stderr d rest (put (output_queue d) (stderr_entry d (rstrip line)) w)
      else (rest, w))"

text \<open>The lines a reader relays: those before the first timeout or end of stream.\<close>

fun relayed :: "readline list \<Rightarrow> string list" where
  "relayed [] = []"
| "relayed (Timeout # rest) = []"
| "relayed (Line line # rest) = (if length line > 0 then line # relayed rest else [])"

section \<open>Example values\<close>

text \<open>A world, the arguments of a small cluster, and a runner's dictionary.\<close>

definition example_world :: world where
  "example_world = \<lparr>sys_executable = ''/usr/bin/python'', now = ''2021-01-01_00:00:00'',
                     next_id = 0, events = []\<rparr>"

definition example_args :: init_args where
  "example_args = default_args (PyStr ''10.0.0.1'') (PyInt 8786) [PyStr ''10.0.0.2'']"

definition example_dict :: cmd_dict where
  "example_dict =
     \<lparr>cmd = ''python -m distributed.cli.dask_scheduler --port 8786'',
      label = ''scheduler'', address = PyStr ''10.0.0.1'', port = Some (PyInt 8786),
      input_queue = 0, output_queue = 1,
      ssh_username = PyNone, ssh_port = PyInt 22, ssh_private_key = PyNone\<rparr>"

text \<open>The cluster of the example arguments: a scheduler and one worker, identifiers 0 to 5.\<close>

definition example_cluster :: cluster where
  "example_cluster =
     (let s = scheduler_handle ''/usr/bin/python'' None (PyStr ''10.0.0.1'') (PyInt 8786)
                PyNone (PyInt 22) PyNone PyNone 0;
          c = new_cluster example_args (PyInt 1) None s
      in c\<lparr>workers := [worker_handle ''/usr/bin/python'' c (PyStr ''10.0.0.2'') 3]\<rparr>)"

text \<open>
  What keeps the words of a cluster's worker commands apart: its parameters and the
  addresses of its workers render to plain words.
\<close>

definition plain_cluster :: "string \<Rightarrow> cluster \<Rightarrow> bool" where
  "plain_cluster ex self =
     (list_all (\<lambda>v. plain (py_str v))
        ([py_or (remote_python self) (PyStr ex), remote_dask_worker self, scheduler_addr self,
          scheduler_port self, nthreads self, n_workers self, memory_limit self,
          worker_port self, nanny_port self, local_directory self] @
         map address (workers self))
      \<and> (case logdir self of None \<Rightarrow> True | Some d \<Rightarrow> plain d))"


section \<open>Properties of the command lines\<close>

subsection \<open>Formatting\<close>

lemma py_format_append:
  "py_format env m a = Inr ra \<Longrightarrow>
   py_format env m (a @ b) =
     (case py_format env None b of Inl e \<Rightarrow> Inl e | Inr rb \<Rightarrow> Inr (ra @ rb))"
proof (induction env m a arbitrary: ra rule: py_format.induct)
  case (1 env)
  then show ?case by (simp split: sum.splits)
next
  case (2 env f)
  then show ?case by simp
next
  case (3 env c cs)
  then show ?case by (auto split: sum.splits if_splits)
next
  case (4 env f c cs)
  then show ?case by (auto split: sum.splits if_splits option.splits)
qed

lemma format_append:
  "format a env = Inr ra \<Longrightarrow> format b env = Inr rb \<Longrightarrow> format (a @ b) env = Inr (ra @ rb)"
  by (simp add: format_def py_format_append)

lemma format_if:
  "format a env = Inr ra \<Longrightarrow> format (if c then a else []) env = Inr (if c then ra else [])"
  by (simp add: format_def)

lemma worker_template_pieces:
  "worker_template k nh mem wport nport =
     ''{python} -m {remote_dask_worker} {scheduler_addr}:{scheduler_port} --nthreads {nthreads}'' @
     ((if ne_one k then '' --nworkers {n_workers}'' else []) @
     ((if \<not> nh then '' --host {worker_addr}'' else []) @
     ((if truthy mem then '' --memory-limit {memory_limit}'' else []) @
     ((if truthy wport then '' --worker-port {worker_port}'' else []) @
     (if truthy nport then '' --nanny-port {nanny_port}'' else [])))))"
  by (simp add: worker_template_def)

lemma format_base:
  "format ''{python} -m {remote_dask_worker} {scheduler_addr}:{scheduler_port} --nthreads {nthreads}''
     (worker_env python rdw saddr sport waddr nt k mem wport nport) =
   Inr (py_str python @ '' -m '' @ py_str rdw @ '' '' @ py_str saddr @ '':'' @ py_str sport
          @ '' --nthreads '' @ py_str nt)"
  by (simp add: format_def worker_env_def)

lemma format_nworkers:
  "format '' --nworkers {n_workers}''
     (worker_env python rdw saddr sport waddr nt k mem wport nport) =
   Inr ('' --nworkers '' @ py_str k)"
  by (simp add: format_def worker_env_def)

lemma format_host:
  "format '' --host {worker_addr}''
     (worker_env python rdw saddr sport waddr nt k mem wport nport) =
   Inr ('' --host '' @ py_str waddr)"
  by (simp add: format_def worker_env_def)

lemma format_memory_limit:
  "format '' --memory-limit {memory_limit}''
     (worker_env python rdw saddr sport waddr nt k mem wport nport) =
   Inr ('' --memory-limit '' @ py_str mem)"
  by (simp add: format_def worker_env_def)

lemma format_worker_port:
  "format '' --worker-port {worker_port}''
     (worker_env python rdw saddr sport waddr nt k mem wport nport) =
   Inr ('' --worker-port '' @ py_str wport)"
  by (simp add: format_def worker_env_def)

lemma format_nanny_port:
  "format '' --nanny-port {nanny_port}''
     (worker_env python rdw saddr sport waddr nt k mem wport nport) =
   Inr ('' --nanny-port '' @ py_str nport)"
  by (simp add: format_def worker_env_def)

lemma format_worker_template:
  "format (worker_template k nh mem wport nport)
     (worker_env python rdw saddr sport waddr nt k mem wport nport) =
   Inr (py_str python @ '' -m '' @ py_str rdw @ '' '' @ py_str saddr @ '':'' @ py_str sport
          @ '' --nthreads '' @ py_str nt
          @ (if ne_one k then '' --nworkers '' @ py_str k else [])
          @ (if \<not> nh then '' --host '' @ py_str waddr else [])
          @ (if truthy mem then '' --memory-limit '' @ py_str mem else [])
          @ (if truthy wport then '' --worker-port '' @ py_str wport else [])
          @ (if truthy nport then '' --nanny-port '' @ py_str nport else []))"
proof -
  note o1 = format_if [OF format_nworkers [of python rdw saddr sport waddr nt k mem wport nport],
                       where c = "ne_one k"]
  note o2 = format_if [OF format_host [of python rdw saddr sport waddr nt k mem wport nport],
                       where c = "\<not> nh"]
  note o3 = format_if [OF format_memory_limit [of python rdw saddr sport waddr nt k mem wport nport],
                       where c = "truthy mem"]
  note o4 = format_if [OF format_worker_port [of python rdw saddr sport waddr nt k mem wport nport],
                       where c = "truthy wport"]
  note o5 = format_if [OF format_nanny_port [of python rdw saddr sport waddr nt k mem wport nport],
                       where c = "truthy nport"]
  note whole = format_append [OF format_base [of python rdw saddr sport waddr nt k mem wport nport]
                 format_append [OF o1 format_append [OF o2 format_append [OF o3
                   format_append [OF o4 o5]]]]]
  show ?thesis
    unfolding worker_template_pieces using whole by simp
qed

text \<open>The worker command, written out.\<close>

lemma start_worker_cmd_text:
  "start_worker_cmd ex ld saddr sport waddr nt k nh mem wport nport rp rdw ldir =
     Inr (worker_cmd_text ex ld saddr sport waddr nt k nh mem wport nport rp rdw ldir)"
proof -
  have loc: "format '' --local-directory {local_directory}'' [(''local_directory'', ldir)]
               = Inr ('' --local-directory '' @ py_str ldir)"
    by (simp add: format_def)
  have red: "\<And>d. format ''&> {logdir}/dask_scheduler_{addr}.log''
                    [(''addr'', waddr), (''logdir'', PyStr d)]
               = Inr (''&> '' @ d @ ''/dask_scheduler_'' @ py_str waddr @ ''.log'')"
    by (simp add: format_def)
  show ?thesis
    unfolding start_worker_cmd_def format_worker_template [unfolded worker_env_def] loc red
    by (simp add: worker_cmd_text_def split: option.splits)
qed


subsection \<open>Words and long options\<close>

lemma split_sp_not_Nil: "split_sp s \<noteq> []"
  by (induction s) (auto split: list.splits)

lemma split_sp_append_space: "split_sp (a @ CHR '' '' # b) = split_sp a @ split_sp b"
proof (induction a)
  case Nil
  then show ?case by simp
next
  case (Cons c a)
  then show ?case
    using split_sp_not_Nil [of a] by (cases "split_sp a") auto
qed

lemma split_sp_word: "CHR '' '' \<notin> set w \<Longrightarrow> split_sp w = [w]"
  by (induction w) auto

lemma flags_of_append_space: "flags_of (a @ CHR '' '' # b) = flags_of a @ flags_of b"
  by (simp add: flags_of_def split_sp_append_space)

lemma flags_of_plain: "plain w \<Longrightarrow> flags_of w = []"
  by (simp add: flags_of_def plain_def split_sp_word)

lemma flags_of_flag: "CHR '' '' \<notin> set f \<Longrightarrow> is_flag f \<Longrightarrow> flags_of f = [f]"
  by (simp add: flags_of_def split_sp_word)

lemma not_flag_append:
  assumes nf: "\<not> is_flag w" and c: "c \<noteq> CHR ''-''"
  shows "\<not> is_flag (w @ c # x)"
proof (cases w)
  case Nil
  with c show ?thesis by (simp add: is_flag_def)
next
  case outer: (Cons a w')
  show ?thesis
  proof (cases w')
    case Nil
    with outer c show ?thesis by (simp add: is_flag_def)
  next
    case (Cons b w'')
    with outer nf show ?thesis by (simp add: is_flag_def)
  qed
qed

lemma plain_append:
  "plain w \<Longrightarrow> c \<noteq> CHR ''-'' \<Longrightarrow> CHR '' '' \<notin> set (c # x) \<Longrightarrow> plain (w @ c # x)"
  unfolding plain_def using not_flag_append [of w c x] by auto

lemma good_Nil: "good [] []"
  by (simp add: good_def flags_of_plain)

lemma good_seg:
  assumes f: "CHR '' '' \<notin> set f" "is_flag f" and v: "plain v" and R: "good R F"
  shows "good (seg c f v @ R) ((if c then [f] else []) @ F)"
proof (cases c)
  case False
  with R show ?thesis by (simp add: seg_def)
next
  case True
  have "flags_of (w @ seg c f v @ R) = f # F" if w: "plain w" for w
  proof -
    have "w @ seg c f v @ R = w @ CHR '' '' # (f @ CHR '' '' # (v @ R))"
      using True by (simp add: seg_def)
    then have "flags_of (w @ seg c f v @ R) = flags_of w @ flags_of f @ flags_of (v @ R)"
      by (simp only: flags_of_append_space)
    also have "\<dots> = [] @ [f] @ F"
      using w f v R by (simp add: flags_of_plain flags_of_flag good_def)
    finally show ?thesis by simp
  qed
  with True show ?thesis by (simp add: good_def)
qed

lemma good_redirect:
  assumes d: "plain d" and a: "CHR '' '' \<notin> set a"
  shows "good (''&> '' @ d @ ''/dask_scheduler_'' @ a @ ''.log'') []"
proof -
  have "flags_of (w @ ''&> '' @ d @ ''/dask_scheduler_'' @ a @ ''.log'') = []"
    if w: "plain w" for w
  proof -
    have eq: "w @ ''&> '' @ d @ ''/dask_scheduler_'' @ a @ ''.log''
            = (w @ CHR ''&'' # ''>'') @ CHR '' '' #
              (d @ CHR ''/'' # (''dask_scheduler_'' @ a @ ''.log''))"
      by simp
    have p1: "plain (w @ CHR ''&'' # ''>'')"
      using w by (intro plain_append) simp_all
    have p2: "plain (d @ CHR ''/'' # (''dask_scheduler_'' @ a @ ''.log''))"
      using d a by (intro plain_append) simp_all
    show ?thesis
      unfolding eq flags_of_append_space flags_of_plain [OF p1] flags_of_plain [OF p2]
      by simp
  qed
  then show ?thesis by (simp add: good_def)
qed

lemma flags_of_body:
  assumes "plain py" "plain rdw" "plain sa" "CHR '' '' \<notin> set sp" "plain nt" "good R F"
  shows "flags_of (py @ '' -m '' @ rdw @ '' '' @ sa @ '':'' @ sp @ '' --nthreads '' @ nt @ R)
           = ''--nthreads'' # F"
proof -
  have eq: "py @ '' -m '' @ rdw @ '' '' @ sa @ '':'' @ sp @ '' --nthreads '' @ nt @ R
          = py @ CHR '' '' # (''-m'' @ CHR '' '' # (rdw @ CHR '' '' #
              ((sa @ CHR '':'' # sp) @ CHR '' '' # (''--nthreads'' @ CHR '' '' # (nt @ R)))))"
    by simp
  have p: "plain ''-m''" by (simp add: plain_def is_flag_def)
  have q: "plain (sa @ CHR '':'' # sp)"
    using assms(3,4) by (intro plain_append) simp_all
  have n: "flags_of ''--nthreads'' = [''--nthreads'']"
    by (rule flags_of_flag) (simp_all add: is_flag_def)
  have r: "flags_of (nt @ R) = F"
    using assms(5,6) by (simp add: good_def)
  show ?thesis
    unfolding eq flags_of_append_space flags_of_plain [OF assms(1)] flags_of_plain [OF assms(2)]
      flags_of_plain [OF p] flags_of_plain [OF q] n r
    by simp
qed

lemma flags_of_mkdir:
  assumes "plain d"
  shows "flags_of (''mkdir -p '' @ d @ '' && '' @ X) = flags_of X"
proof -
  have eq: "''mkdir -p '' @ d @ '' && '' @ X
          = ''mkdir'' @ CHR '' '' # (''-p'' @ CHR '' '' # (d @ CHR '' '' # (''&&'' @ CHR '' '' # X)))"
    by simp
  have p: "plain ''mkdir''" "plain ''-p''" "plain ''&&''"
    by (simp_all add: plain_def is_flag_def)
  show ?thesis
    unfolding eq flags_of_append_space flags_of_plain [OF assms] p [THEN flags_of_plain]
    by simp
qed

lemma worker_cmd_text_flags:
  assumes vals: "list_all (\<lambda>v. plain (py_str v))
                   [py_or rp (PyStr ex), rdw, saddr, sport, waddr, nt, k, mem, wport, nport, ldir]"
      and dir: "case ld of None \<Rightarrow> True | Some d \<Rightarrow> plain d"
  shows "flags_of (worker_cmd_text ex ld saddr sport waddr nt k nh mem wport nport rp rdw ldir) =
               ''--nthreads'' #
               (if ne_one k then [''--nworkers''] else []) @
               (if \<not> nh then [''--host''] else []) @
               (if truthy mem then [''--memory-limit''] else []) @
               (if truthy wport then [''--worker-port''] else []) @
               (if truthy nport then [''--nanny-port''] else []) @
               (if ldir \<noteq> PyNone then [''--local-directory''] else [])"
proof -
  let ?suf = "(case ld of None \<Rightarrow> [] | Some d \<Rightarrow>
               ''&> '' @ d @ ''/dask_scheduler_'' @ py_str waddr @ ''.log'')"
  let ?R = "seg (ne_one k) ''--nworkers'' (py_str k) @
            seg (\<not> nh) ''--host'' (py_str waddr) @
            seg (truthy mem) ''--memory-limit'' (py_str mem) @
            seg (truthy wport) ''--worker-port'' (py_str wport) @
            seg (truthy nport) ''--nanny-port'' (py_str nport) @
            seg (ldir \<noteq> PyNone) ''--local-directory'' (py_str ldir) @ ?suf"
  let ?body = "py_str (py_or rp (PyStr ex)) @ '' -m '' @ py_str rdw @ '' '' @ py_str saddr @
               '':'' @ py_str sport @ '' --nthreads '' @ py_str nt @ ?R"
  let ?cmd = "(case ld of None \<Rightarrow> ?body | Some d \<Rightarrow> ''mkdir -p '' @ d @ '' && '' @ ?body)"
  let ?F = "(if ne_one k then [''--nworkers''] else []) @
            (if \<not> nh then [''--host''] else []) @
            (if truthy mem then [''--memory-limit''] else []) @
            (if truthy wport then [''--worker-port''] else []) @
            (if truthy nport then [''--nanny-port''] else []) @
            (if ldir \<noteq> PyNone then [''--local-directory''] else []) @ []"
  have cmd: "worker_cmd_text ex ld saddr sport waddr nt k nh mem wport nport rp rdw ldir = ?cmd"
    by (simp add: worker_cmd_text_def seg_def split: option.splits)
  have suf: "good ?suf []"
  proof (cases ld)
    case None
    then show ?thesis by (simp add: good_Nil)
  next
    case (Some d)
    have "plain d" using dir Some by simp
    moreover have "CHR '' '' \<notin> set (py_str waddr)" using vals by (simp add: plain_def)
    ultimately have "good (''&> '' @ d @ ''/dask_scheduler_'' @ py_str waddr @ ''.log'') []"
      by (rule good_redirect)
    with Some show ?thesis by (simp only: option.case)
  qed
  have R: "good ?R ?F"
    using vals by (intro good_seg suf) (simp_all add: is_flag_def)
  have body: "flags_of ?body = ''--nthreads'' # ?F"
    using vals by (intro flags_of_body R) (simp_all add: plain_def)
  have "flags_of ?cmd = flags_of ?body"
    using dir by (cases ld) (simp_all only: option.case flags_of_mkdir)
  with body cmd show ?thesis by simp
qed





subsection \<open>The scheduler command\<close>

text \<open>
  Claim C2, amended. The scheduler command is the interpreter (the remote path when one
  is given and not empty, the local interpreter otherwise), \<open>-m
  distributed.cli.dask_scheduler --port\<close> and the port; with a log directory it is
  preceded by \<open>mkdir -p <logdir> && \<close> and followed, with no space in between, by
  \<open>&> <logdir>/dask_scheduler_<addr>:<port>.log\<close>; without one it has neither part.
\<close>

theorem start_scheduler_cmd_text:
  "start_scheduler_cmd ex ld addr prt rp =
     Inr ((case ld of None \<Rightarrow> [] | Some d \<Rightarrow> ''mkdir -p '' @ d @ '' && '')
          @ py_str (py_or rp (PyStr ex)) @ '' -m distributed.cli.dask_scheduler --port '' @ py_str prt
          @ (case ld of None \<Rightarrow> [] | Some d \<Rightarrow>
               ''&> '' @ d @ ''/dask_scheduler_'' @ py_str addr @ '':'' @ py_str prt @ ''.log''))"
  by (simp add: start_scheduler_cmd_def format_def split: option.splits)

text \<open>
  Claim C2 as stated fails: the command built with a log directory is not the one
  worded in the specification, which has a space between the port and the redirection.
\<close>

theorem start_scheduler_redirect_counterexample:
  "start_scheduler_cmd ''python'' (Some ''/log'') (PyStr ''10.0.0.1'') (PyInt 8786) PyNone
     = Inr ''mkdir -p /log && python -m distributed.cli.dask_scheduler --port 8786&> /log/dask_scheduler_10.0.0.1:8786.log''
   \<and> start_scheduler_cmd ''python'' (Some ''/log'') (PyStr ''10.0.0.1'') (PyInt 8786) PyNone
     \<noteq> Inr (spec_scheduler_cmd ''python'' (Some ''/log'') ''10.0.0.1'' ''8786'')"
  by (simp add: start_scheduler_cmd_def format_def py_or_def str_int_def digit_char_def
      spec_scheduler_cmd_def)

section \<open>Properties of the launchers and of the cluster\<close>

lemma emit_simps:
  "events (emit e w) = events w @ [e]" "next_id (emit e w) = next_id w"
  "sys_executable (emit e w) = sys_executable w" "now (emit e w) = now w"
  by (simp_all add: emit_def)

lemma start_scheduler_cmd_eq:
  "start_scheduler_cmd ex ld addr prt rp = Inr (scheduler_cmd_text ex ld addr prt rp)"
  by (simp add: start_scheduler_cmd_def scheduler_cmd_text_def format_def split: option.splits)

lemma start_scheduler_eq:
  "start_scheduler ld addr prt user sshp key rpy w =
     (Inr (scheduler_handle (sys_executable w) ld addr prt user sshp key rpy (next_id w)),
      emit (ThreadStart (next_id w + 2)
              (cmd_dict.truncate
                 (scheduler_handle (sys_executable w) ld addr prt user sshp key rpy (next_id w))))
           (w\<lparr>next_id := next_id w + 3\<rparr>))"
  by (simp add: start_scheduler_def start_scheduler_cmd_eq scheduler_handle_def Let_def
      cmd_dict.defs handle.defs)

lemma start_worker_eq:
  "start_worker ld saddr sport waddr nt nw user sshp key nh mem wport nport rpy rdw ldir w =
     (Inr \<lparr>cmd = worker_cmd_text (sys_executable w) ld saddr sport waddr nt nw nh mem wport
                    nport rpy rdw ldir,
            label = ''worker '' @ py_str waddr, address = waddr, port = None,
            input_queue = next_id w, output_queue = next_id w + 1,
            ssh_username = user, ssh_port = sshp, ssh_private_key = key,
            thread = next_id w + 2\<rparr>,
      emit (ThreadStart (next_id w + 2)
              \<lparr>cmd = worker_cmd_text (sys_executable w) ld saddr sport waddr nt nw nh mem wport
                    nport rpy rdw ldir,
               label = ''worker '' @ py_str waddr, address = waddr, port = None,
               input_queue = next_id w, output_queue = next_id w + 1,
               ssh_username = user, ssh_port = sshp, ssh_private_key = key\<rparr>)
           (w\<lparr>next_id := next_id w + 3\<rparr>))"
  by (simp add: start_worker_def start_worker_cmd_text Let_def cmd_dict.defs handle.defs)

lemma add_worker_eq:
  "add_worker self addr w =
     (Inr (self\<lparr>workers := workers self @ [worker_handle (sys_executable w) self addr (next_id w)]\<rparr>),
      emit (ThreadStart (next_id w + 2)
              (cmd_dict.truncate (worker_handle (sys_executable w) self addr (next_id w))))
           (w\<lparr>next_id := next_id w + 3\<rparr>))"
  by (simp add: add_worker_def start_worker_eq worker_handle_def cmd_dict.defs)

lemma worker_handle_workers [simp]:
  "worker_handle ex (self\<lparr>workers := ws\<rparr>) addr n = worker_handle ex self addr n"
  by (simp add: worker_handle_def)

lemma worker_handles_workers [simp]:
  "worker_handles ex (self\<lparr>workers := ws\<rparr>) addrs n = worker_handles ex self addrs n"
  by (induction addrs arbitrary: n) simp_all

lemma add_workers_eq:
  "add_workers self addrs w =
     (Inr (self\<lparr>workers := workers self @ worker_handles (sys_executable w) self addrs (next_id w)\<rparr>),
      w\<lparr>next_id := next_id w + 3 * length addrs,
        events := events w @ worker_starts (worker_handles (sys_executable w) self addrs (next_id w))\<rparr>)"
proof (induction addrs arbitrary: self w)
  case Nil
  then show ?case by (simp add: worker_starts_def)
next
  case (Cons addr addrs)
  show ?case
    by (simp add: add_worker_eq Cons.IH emit_def worker_starts_def worker_handle_def)
qed

lemma pop_nprocs_rest:
  "snd (pop_nprocs kw) = filter (\<lambda>kv. fst kv \<noteq> ''nprocs'') kw"
proof (cases "map_of kw ''nprocs''")
  case None
  then have "\<forall>kv \<in> set kw. fst kv \<noteq> ''nprocs''"
    by (metis map_of_eq_None_iff image_eqI)
  then have "filter (\<lambda>kv. fst kv \<noteq> ''nprocs'') kw = kw"
    by (simp add: filter_id_conv)
  with None show ?thesis by (simp add: pop_nprocs_def)
next
  case (Some v)
  then show ?thesis by (simp add: pop_nprocs_def)
qed

lemma join_comma_mentions:
  "k \<in> set ks \<Longrightarrow> \<exists>p q. join_comma ks = p @ k @ q"
proof (induction ks rule: join_comma.induct)
  case 1
  then show ?case by simp
next
  case (2 k')
  then have "join_comma [k'] = [] @ k @ []" by simp
  then show ?case by blast
next
  case (3 k' k'' ks)
  show ?case
  proof (cases "k = k'")
    case True
    then have "join_comma (k' # k'' # ks) = [] @ k @ ('', '' @ join_comma (k'' # ks))" by simp
    then show ?thesis by blast
  next
    case False
    with 3 obtain p q where "join_comma (k'' # ks) = p @ k @ q" by auto
    then have "join_comma (k' # k'' # ks) = (k' @ '', '' @ p) @ k @ q" by simp
    then show ?thesis by blast
  qed
qed

text \<open>What the constructor has done when it raises for its keyword arguments.\<close>

lemma init_raises:
  assumes "snd (pop_nprocs (kwargs a)) \<noteq> [] \<or>
           (fst (pop_nprocs (kwargs a)) \<noteq> PyNone \<and> arg_n_workers a \<noteq> PyNone)"
  shows "SSHCluster_init a w =
           (Inl (if snd (pop_nprocs (kwargs a)) \<noteq> []
                 then TypeError (''__init__() got an unexpected keyword argument '' @
                                 join_comma (map fst (snd (pop_nprocs (kwargs a)))))
                 else ValueError ''Both nprocs and n_workers were specified. Use n_workers only.''),
            w\<lparr>events := events w @ [Store ''scheduler_addr'' (arg_scheduler_addr a),
                                     Store ''scheduler_port'' (arg_scheduler_port a),
                                     Store ''nthreads'' (arg_nthreads a)]\<rparr>)"
proof -
  obtain nprocs kw where pop: "pop_nprocs (kwargs a) = (nprocs, kw)"
    by (cases "pop_nprocs (kwargs a)")
  with assms show ?thesis
    by (auto simp: SSHCluster_init_def resolve_n_workers_def store_def emit_def)
qed

text \<open>
  Claim C4. When both \<open>nprocs\<close> and \<open>n_workers\<close> are given and not \<open>None\<close>, the
  constructor raises: the ValueError about the two names when there is no other
  unexpected keyword, the TypeError about those otherwise. Until then it has only
  assigned three attributes: no thread has been started, no identifier handed out.
\<close>

theorem init_both_worker_counts:
  assumes "fst (pop_nprocs (kwargs a)) \<noteq> PyNone" and "arg_n_workers a \<noteq> PyNone"
  shows "fst (SSHCluster_init a w) =
           Inl (if snd (pop_nprocs (kwargs a)) = []
                then ValueError ''Both nprocs and n_workers were specified. Use n_workers only.''
                else TypeError (''__init__() got an unexpected keyword argument '' @
                                join_comma (map fst (snd (pop_nprocs (kwargs a))))))
         \<and> thread_starts (events (snd (SSHCluster_init a w))) = thread_starts (events w)
         \<and> next_id (snd (SSHCluster_init a w)) = next_id w
         \<and> events (snd (SSHCluster_init a w)) =
             events w @ [Store ''scheduler_addr'' (arg_scheduler_addr a),
                         Store ''scheduler_port'' (arg_scheduler_port a),
                         Store ''nthreads'' (arg_nthreads a)]"
  using assms by (simp add: init_raises thread_starts_def)

theorem init_both_worker_counts_witness:
  "fst (SSHCluster_init (example_args\<lparr>arg_n_workers := PyInt 2, kwargs := [(''nprocs'', PyInt 4)]\<rparr>)
          example_world) =
     Inl (ValueError ''Both nprocs and n_workers were specified. Use n_workers only.'')
   \<and> thread_starts (events (snd (SSHCluster_init
         (example_args\<lparr>arg_n_workers := PyInt 2, kwargs := [(''nprocs'', PyInt 4)]\<rparr>)
         example_world))) = 0
   \<and> next_id (snd (SSHCluster_init
         (example_args\<lparr>arg_n_workers := PyInt 2, kwargs := [(''nprocs'', PyInt 4)]\<rparr>)
         example_world)) = 0"
  using init_both_worker_counts
          [of "example_args\<lparr>arg_n_workers := PyInt 2, kwargs := [(''nprocs'', PyInt 4)]\<rparr>"
              example_world]
  by (simp add: pop_nprocs_def example_args_def default_args_def example_world_def
      thread_starts_def)

lemma new_cluster_simps:
  "n_workers (new_cluster a nw ld s) = nw" "workers (new_cluster a nw ld s) = []"
  "scheduler (new_cluster a nw ld s) = s" "logdir (new_cluster a nw ld s) = ld"
  by (simp_all add: new_cluster_def)

text \<open>
  Claim C9. With \<open>nprocs\<close> given and not \<open>None\<close>, \<open>n_workers\<close> left out and no other
  unexpected keyword, the constructor returns a cluster whose worker count is the value
  of \<open>nprocs\<close>; the deprecation warning has been issued, and the workers have been
  launched with the parameters of that cluster.
\<close>

theorem init_legacy_nprocs:
  assumes "fst (pop_nprocs (kwargs a)) \<noteq> PyNone" and "arg_n_workers a = PyNone"
      and "snd (pop_nprocs (kwargs a)) = []"
  shows "\<exists>c w'. SSHCluster_init a w = (Inr c, w')
           \<and> n_workers c = fst (pop_nprocs (kwargs a))
           \<and> Warn (''The nprocs argument will be removed in a future release. It has been '' @
                    ''renamed to n_workers.'') \<in> set (events w')
           \<and> Store ''n_workers'' (fst (pop_nprocs (kwargs a))) \<in> set (events w')
           \<and> workers c = worker_handles (sys_executable w) c (arg_worker_addrs a) (next_id w + 3)"
proof -
  obtain nprocs kw where pop: "pop_nprocs (kwargs a) = (nprocs, kw)"
    by (cases "pop_nprocs (kwargs a)")
  with assms show ?thesis
    by (simp add: SSHCluster_init_def resolve_n_workers_def store_def emit_simps Let_def
        start_scheduler_eq add_workers_eq new_cluster_simps split: option.splits)
qed

theorem init_legacy_nprocs_witness:
  "\<exists>c w'. SSHCluster_init (example_args\<lparr>kwargs := [(''nprocs'', PyInt 4)]\<rparr>) example_world
            = (Inr c, w')
         \<and> n_workers c = PyInt 4
         \<and> Warn (''The nprocs argument will be removed in a future release. It has been '' @
                  ''renamed to n_workers.'') \<in> set (events w')
         \<and> Store ''n_workers'' (PyInt 4) \<in> set (events w')
         \<and> workers c = worker_handles (sys_executable example_world) c [PyStr ''10.0.0.2'']
                          (next_id example_world + 3)"
  using init_legacy_nprocs [of "example_args\<lparr>kwargs := [(''nprocs'', PyInt 4)]\<rparr>" example_world]
  by (simp add: pop_nprocs_def example_args_def default_args_def)

lemma address_worker_handles:
  "map address (worker_handles ex self addrs n) = addrs"
  by (induction addrs arbitrary: n) (simp_all add: worker_handle_def)

lemma list_all_worker_handles:
  "(\<And>addr m. addr \<in> set addrs \<Longrightarrow> P (worker_handle ex self addr m)) \<Longrightarrow>
   list_all P (worker_handles ex self addrs n)"
  by (induction addrs arbitrary: n) simp_all

lemma default_worker_no_nworkers:
  assumes "plain_cluster ex self" and "n_workers self = PyInt 1"
      and "workers self = worker_handles ex self addrs n"
  shows "list_all (\<lambda>h. ''--nworkers'' \<notin> set (flags_of (cmd h))) (workers self)"
proof -
  have "''--nworkers'' \<notin> set (flags_of (cmd (worker_handle ex self addr m)))"
    if "addr \<in> set addrs" for addr m
  proof -
    from that assms(3) have "addr \<in> set (map address (workers self))"
      by (simp add: address_worker_handles)
    with assms(1) have vals: "list_all (\<lambda>v. plain (py_str v))
        [py_or (remote_python self) (PyStr ex), remote_dask_worker self, scheduler_addr self,
         scheduler_port self, addr, nthreads self, n_workers self, memory_limit self,
         worker_port self, nanny_port self, local_directory self]"
      by (auto simp: plain_cluster_def list_all_iff)
    from assms(1) have dir: "case logdir self of None \<Rightarrow> True | Some d \<Rightarrow> plain d"
      by (simp add: plain_cluster_def)
    have "flags_of (cmd (worker_handle ex self addr m)) =
            ''--nthreads'' #
            (if ne_one (n_workers self) then [''--nworkers''] else []) @
            (if \<not> nohost self then [''--host''] else []) @
            (if truthy (memory_limit self) then [''--memory-limit''] else []) @
            (if truthy (worker_port self) then [''--worker-port''] else []) @
            (if truthy (nanny_port self) then [''--nanny-port''] else []) @
            (if local_directory self \<noteq> PyNone then [''--local-directory''] else [])"
      unfolding worker_handle_def using worker_cmd_text_flags [OF vals dir, of "nohost self"]
      by simp
    with assms(2) show ?thesis by simp
  qed
  then have "list_all (\<lambda>h. ''--nworkers'' \<notin> set (flags_of (cmd h))) (worker_handles ex self addrs n)"
    by (rule list_all_worker_handles)
  with assms(3) show ?thesis by simp
qed

lemma init_default_count:
  assumes "snd (pop_nprocs (kwargs a)) = []" and "fst (pop_nprocs (kwargs a)) = PyNone"
      and "arg_n_workers a = PyNone"
  shows "\<exists>c w'. SSHCluster_init a w = (Inr c, w') \<and> n_workers c = PyInt 1
           \<and> workers c = worker_handles (sys_executable w) c (arg_worker_addrs a) (next_id w + 3)"
proof -
  obtain nprocs kw where pop: "pop_nprocs (kwargs a) = (nprocs, kw)"
    by (cases "pop_nprocs (kwargs a)")
  with assms show ?thesis
    by (simp add: SSHCluster_init_def resolve_n_workers_def store_def emit_simps Let_def
        start_scheduler_eq add_workers_eq new_cluster_simps split: option.splits)
qed

text \<open>
  Claim C10, amended. A keyword other than the documented parameters and \<open>nprocs\<close>
  makes the constructor raise a TypeError whose message ends with the unexpected names;
  by then it has assigned \<open>scheduler_addr\<close>, \<open>scheduler_port\<close> and \<open>nthreads\<close> on the
  object and nothing else, and has started no scheduler or worker. With neither
  \<open>nprocs\<close> nor \<open>n_workers\<close> given, the worker count is 1, and the commands of the
  workers it launches have no \<open>--nworkers\<close> option (their parameters being plain words).
\<close>

theorem init_unexpected_keyword_and_default:
  "(snd (pop_nprocs (kwargs a)) \<noteq> [] \<longrightarrow>
      SSHCluster_init a w =
        (Inl (TypeError (''__init__() got an unexpected keyword argument '' @
                         join_comma (map fst (snd (pop_nprocs (kwargs a)))))),
         w\<lparr>events := events w @ [Store ''scheduler_addr'' (arg_scheduler_addr a),
                                  Store ''scheduler_port'' (arg_scheduler_port a),
                                  Store ''nthreads'' (arg_nthreads a)]\<rparr>)
      \<and> snd (pop_nprocs (kwargs a)) = filter (\<lambda>kv. fst kv \<noteq> ''nprocs'') (kwargs a)
      \<and> (\<forall>k \<in> set (map fst (snd (pop_nprocs (kwargs a)))).
            \<exists>p q. join_comma (map fst (snd (pop_nprocs (kwargs a)))) = p @ k @ q))
   \<and> (snd (pop_nprocs (kwargs a)) = [] \<and> fst (pop_nprocs (kwargs a)) = PyNone \<and>
      arg_n_workers a = PyNone \<longrightarrow>
        (\<exists>c w'. SSHCluster_init a w = (Inr c, w') \<and> n_workers c = PyInt 1 \<and>
           (plain_cluster (sys_executable w) c \<longrightarrow>
              list_all (\<lambda>h. ''--nworkers'' \<notin> set (flags_of (cmd h))) (workers c))))"
proof (intro conjI impI)
  assume "snd (pop_nprocs (kwargs a)) \<noteq> []"
  then show "SSHCluster_init a w =
        (Inl (TypeError (''__init__() got an unexpected keyword argument '' @
                         join_comma (map fst (snd (pop_nprocs (kwargs a)))))),
         w\<lparr>events := events w @ [Store ''scheduler_addr'' (arg_scheduler_addr a),
                                  Store ''scheduler_port'' (arg_scheduler_port a),
                                  Store ''nthreads'' (arg_nthreads a)]\<rparr>)"
    by (simp add: init_raises)
next
  show "snd (pop_nprocs (kwargs a)) = filter (\<lambda>kv. fst kv \<noteq> ''nprocs'') (kwargs a)"
    by (rule pop_nprocs_rest)
next
  show "\<forall>k \<in> set (map fst (snd (pop_nprocs (kwargs a)))).
            \<exists>p q. join_comma (map fst (snd (pop_nprocs (kwargs a)))) = p @ k @ q"
    using join_comma_mentions by blast
next
  assume "snd (pop_nprocs (kwargs a)) = [] \<and> fst (pop_nprocs (kwargs a)) = PyNone \<and>
      arg_n_workers a = PyNone"
  then obtain c w' where c: "SSHCluster_init a w = (Inr c, w')" "n_workers c = PyInt 1"
      "workers c = worker_handles (sys_executable w) c (arg_worker_addrs a) (next_id w + 3)"
    using init_default_count [of a w] by blast
  then have "plain_cluster (sys_executable w) c \<longrightarrow>
              list_all (\<lambda>h. ''--nworkers'' \<notin> set (flags_of (cmd h))) (workers c)"
    using default_worker_no_nworkers by blast
  with c show "\<exists>c w'. SSHCluster_init a w = (Inr c, w') \<and> n_workers c = PyInt 1 \<and>
           (plain_cluster (sys_executable w) c \<longrightarrow>
              list_all (\<lambda>h. ''--nworkers'' \<notin> set (flags_of (cmd h))) (workers c))"
    by blast
qed

lemma example_cluster_built:
  "fst (SSHCluster_init example_args example_world) = Inr example_cluster"
  by (simp add: SSHCluster_init_def pop_nprocs_def resolve_n_workers_def store_def emit_simps
      start_scheduler_eq add_workers_eq example_args_def default_args_def example_world_def
      example_cluster_def new_cluster_def Let_def)

lemma example_cluster_plain: "plain_cluster ''/usr/bin/python'' example_cluster"
  by (simp add: plain_cluster_def example_cluster_def new_cluster_def example_args_def
      default_args_def worker_handle_def Let_def plain_def is_flag_def py_or_def str_int_def
      digit_char_def)

theorem init_unexpected_keyword_and_default_witness:
  "SSHCluster_init (example_args\<lparr>kwargs := [(''nprocs'', PyNone), (''foo'', PyInt 1)]\<rparr>)
     example_world =
     (Inl (TypeError ''__init__() got an unexpected keyword argument foo''),
      example_world\<lparr>events := [Store ''scheduler_addr'' (PyStr ''10.0.0.1''),
                                 Store ''scheduler_port'' (PyInt 8786),
                                 Store ''nthreads'' (PyInt 0)]\<rparr>)
   \<and> n_workers example_cluster = PyInt 1
   \<and> list_all (\<lambda>h. ''--nworkers'' \<notin> set (flags_of (cmd h))) (workers example_cluster)"
proof -
  have "SSHCluster_init (example_args\<lparr>kwargs := [(''nprocs'', PyNone), (''foo'', PyInt 1)]\<rparr>)
     example_world =
     (Inl (TypeError ''__init__() got an unexpected keyword argument foo''),
      example_world\<lparr>events := [Store ''scheduler_addr'' (PyStr ''10.0.0.1''),
                                 Store ''scheduler_port'' (PyInt 8786),
                                 Store ''nthreads'' (PyInt 0)]\<rparr>)"
    using init_unexpected_keyword_and_default
            [of "example_args\<lparr>kwargs := [(''nprocs'', PyNone), (''foo'', PyInt 1)]\<rparr>"
                example_world]
    by (simp add: pop_nprocs_def example_args_def default_args_def example_world_def)
  moreover have "\<exists>c w'. SSHCluster_init example_args example_world = (Inr c, w') \<and>
      n_workers c = PyInt 1 \<and>
      (plain_cluster (sys_executable example_world) c \<longrightarrow>
         list_all (\<lambda>h. ''--nworkers'' \<notin> set (flags_of (cmd h))) (workers c))"
    using init_unexpected_keyword_and_default [of example_args example_world]
    by (simp add: pop_nprocs_def example_args_def default_args_def)
  then have "n_workers example_cluster = PyInt 1 \<and>
      list_all (\<lambda>h. ''--nworkers'' \<notin> set (flags_of (cmd h))) (workers example_cluster)"
    using example_cluster_built example_cluster_plain by (auto simp: example_world_def)
  ultimately show ?thesis by simp
qed

text \<open>
  Claim C10 as stated fails: when the TypeError for an unexpected keyword is raised,
  three launch parameters have already been stored on the object.
\<close>

theorem init_unexpected_keyword_counterexample:
  "fst (SSHCluster_init (example_args\<lparr>kwargs := [(''foo'', PyInt 1)]\<rparr>) example_world) =
     Inl (TypeError ''__init__() got an unexpected keyword argument foo'')
   \<and> events (snd (SSHCluster_init (example_args\<lparr>kwargs := [(''foo'', PyInt 1)]\<rparr>) example_world)) =
     [Store ''scheduler_addr'' (PyStr ''10.0.0.1''), Store ''scheduler_port'' (PyInt 8786),
      Store ''nthreads'' (PyInt 0)]"
  by (simp add: SSHCluster_init_def pop_nprocs_def store_def emit_simps example_args_def
      default_args_def example_world_def)

text \<open>
  Claim C8. \<open>add_worker\<close> returns the cluster with one handle appended to its workers,
  everything else as it was: the handle's command is what \<open>start_worker_cmd\<close> builds
  from the attributes of the cluster and the address, its label and address are those
  of the worker, its ssh user, port and key are the ones stored in the cluster, its
  queues and thread are new, and the only thing that happened is the start of its
  thread. With one worker before,
  there are two after, and the first is the one that was there.
\<close>

theorem add_worker_appends:
  "\<exists>h w'. add_worker self addr w = (Inr (self\<lparr>workers := workers self @ [h]\<rparr>), w')
     \<and> start_worker_cmd (sys_executable w) (logdir self) (scheduler_addr self)
         (scheduler_port self) addr (nthreads self) (n_workers self) (nohost self)
         (memory_limit self) (worker_port self) (nanny_port self) (remote_python self)
         (remote_dask_worker self) (local_directory self) = Inr (cmd h)
     \<and> label h = ''worker '' @ py_str addr
     \<and> address h = addr
     \<and> port h = None
     \<and> input_queue h = next_id w \<and> output_queue h = next_id w + 1 \<and> thread h = next_id w + 2
     \<and> ssh_username h = cluster_ssh_username self
     \<and> ssh_port h = cluster_ssh_port self
     \<and> ssh_private_key h = cluster_ssh_private_key self
     \<and> next_id w' = next_id w + 3
     \<and> events w' = events w @ [ThreadStart (thread h) (cmd_dict.truncate h)]
     \<and> scheduler (self\<lparr>workers := workers self @ [h]\<rparr>) = scheduler self
     \<and> take (length (workers self)) (workers (self\<lparr>workers := workers self @ [h]\<rparr>))
         = workers self
     \<and> (length (workers self) = 1 \<longrightarrow>
          length (workers (self\<lparr>workers := workers self @ [h]\<rparr>)) = 2 \<and>
          hd (workers (self\<lparr>workers := workers self @ [h]\<rparr>)) = hd (workers self))"
proof -
  let ?h = "worker_handle (sys_executable w) self addr (next_id w)"
  let ?w' = "emit (ThreadStart (next_id w + 2) (cmd_dict.truncate ?h)) (w\<lparr>next_id := next_id w + 3\<rparr>)"
  have first: "length (workers self) = 1 \<longrightarrow> hd (workers self @ [?h]) = hd (workers self)"
    by (cases "workers self") simp_all
  show ?thesis
    by (rule exI [of _ ?h], rule exI [of _ ?w'])
      (simp add: add_worker_eq emit_simps start_worker_cmd_text first, simp add: worker_handle_def)
qed

theorem add_worker_appends_witness:
  "\<exists>h w'. add_worker example_cluster (PyStr ''10.0.0.3'') (example_world\<lparr>next_id := 6\<rparr>)
            = (Inr (example_cluster\<lparr>workers := workers example_cluster @ [h]\<rparr>), w')
     \<and> address h = PyStr ''10.0.0.3''
     \<and> ssh_port h = cluster_ssh_port example_cluster
     \<and> length (workers example_cluster) = 1
     \<and> length (workers (example_cluster\<lparr>workers := workers example_cluster @ [h]\<rparr>)) = 2
     \<and> hd (workers (example_cluster\<lparr>workers := workers example_cluster @ [h]\<rparr>))
         = hd (workers example_cluster)"
proof -
  have one: "length (workers example_cluster) = 1"
    by (simp add: example_cluster_def Let_def)
  from add_worker_appends [of example_cluster "PyStr ''10.0.0.3''" "example_world\<lparr>next_id := 6\<rparr>"]
  obtain h w' where
    "add_worker example_cluster (PyStr ''10.0.0.3'') (example_world\<lparr>next_id := 6\<rparr>)
       = (Inr (example_cluster\<lparr>workers := workers example_cluster @ [h]\<rparr>), w')"
    "address h = PyStr ''10.0.0.3''"
    "ssh_port h = cluster_ssh_port example_cluster"
    "length (workers example_cluster) = 1 \<longrightarrow>
          length (workers (example_cluster\<lparr>workers := workers example_cluster @ [h]\<rparr>)) = 2 \<and>
          hd (workers (example_cluster\<lparr>workers := workers example_cluster @ [h]\<rparr>))
            = hd (workers example_cluster)"
    by blast
  with one show ?thesis by blast
qed

lemma shutdown_loop_events:
  "shutdown_loop hs w =
     w\<lparr>events := events w @
          concat (map (\<lambda>h. [Put (input_queue h) ''shutdown'', Join (thread h)]) hs)\<rparr>"
  by (induction hs arbitrary: w) (simp_all add: put_def join_def emit_def)

text \<open>
  Claim C5. \<open>shutdown\<close> does, for the scheduler and then for each worker in the order
  of the list, a put of \<open>shutdown\<close> on the input queue of the handle followed by a join
  of its thread, and nothing else.
\<close>

theorem shutdown_order:
  "shutdown self w =
     w\<lparr>events := events w @
          concat (map (\<lambda>h. [Put (input_queue h) ''shutdown'', Join (thread h)])
                      (scheduler self # workers self))\<rparr>"
  by (simp add: shutdown_def shutdown_loop_events)

text \<open>
  Claim C7. \<open>__enter__\<close> returns the object; \<open>__exit__\<close> is \<open>shutdown\<close> whatever the
  exception information; so a \<open>with\<close> block, however its body ends, gives the body's
  result and the world after \<open>shutdown\<close> of the object as the body left it.
\<close>

theorem scoped_cluster:
  "enter self = self
   \<and> exit_cluster self args w = shutdown self w
   \<and> with_cluster self body w =
       (fst (body self w), shutdown (fst (snd (body self w))) (snd (snd (body self w))))"
  by (simp add: enter_def exit_cluster_def with_cluster_def split: prod.splits)

section \<open>Properties of the remote command runner\<close>

lemma ssh_fails_Suc:
  "ssh_fails c (Suc n) = (ssh_fails c n \<and> (\<exists>e. c n = SSHError e))"
  by (auto simp: ssh_fails_def split: connect_result.splits)

lemma connect_exhausted:
  assumes "ssh_fails c 3"
  shows "fst (async_ssh c d) = Exits 1 \<and>
         timeline (snd (async_ssh c d)) =
           [Connect, Sleep 1, Connect, Sleep 1, Connect, ProcessExit 1]"
proof -
  from assms obtain e0 e1 e2
    where "c 0 = SSHError e0" "c (Suc 0) = SSHError e1" "c (Suc (Suc 0)) = SSHError e2"
    by (auto simp: numeral_3_eq_3 ssh_fails_Suc)
  then show ?thesis
    by (simp add: async_ssh_def Let_def timeline_def)
qed

lemma connect_settled:
  assumes "n < 3" and "ssh_fails c n"
  shows "(c n = OtherError e \<longrightarrow>
            fst (async_ssh c d) = Raises e \<and>
            timeline (snd (async_ssh c d)) = concat (replicate n [Connect, Sleep 1]) @ [Connect])
       \<and> (c n = ConnectOK \<longrightarrow>
            fst (async_ssh c d) = Proceeds \<and>
            timeline (snd (async_ssh c d)) =
              concat (replicate n [Connect, Sleep 1]) @
              [Connect, ExecCommand (''$SHELL -i -c '' @ [SQUOTE] @ cmd d @ [SQUOTE])])"
proof -
  from assms(1) consider "n = 0" | "n = Suc 0" | "n = Suc (Suc 0)" by arith
  then show ?thesis
  proof cases
    case 1
    then show ?thesis by (simp add: async_ssh_def Let_def timeline_def)
  next
    case 2
    with assms obtain e0 where "c 0 = SSHError e0" by (auto simp: ssh_fails_Suc)
    with 2 show ?thesis by (simp add: async_ssh_def Let_def timeline_def)
  next
    case 3
    with assms obtain e0 e1 where "c 0 = SSHError e0" "c (Suc 0) = SSHError e1"
      by (auto simp: ssh_fails_Suc)
    with 3 show ?thesis
      by (simp add: async_ssh_def Let_def timeline_def numeral_2_eq_2)
  qed
qed

text \<open>
  Claim C3. When the first three connection attempts raise an SSH failure, the runner
  makes exactly these three attempts with a sleep of 1 after the first and after the
  second, then ends the process with status 1, and the remote command is never
  started. When fewer than three SSH failures are followed by another kind of
  exception, that exception leaves the runner at once: no further attempt, no sleep
  after it, no exit of the process, no command. When they are followed by a successful
  connection, the command is started.
\<close>

theorem async_ssh_retries:
  "(ssh_fails c 3 \<longrightarrow>
      fst (async_ssh c d) = Exits 1 \<and>
      timeline (snd (async_ssh c d)) =
        [Connect, Sleep 1, Connect, Sleep 1, Connect, ProcessExit 1])
   \<and> (n < 3 \<and> ssh_fails c n \<and> c n = OtherError e \<longrightarrow>
        fst (async_ssh c d) = Raises e \<and>
        timeline (snd (async_ssh c d)) = concat (replicate n [Connect, Sleep 1]) @ [Connect])
   \<and> (n < 3 \<and> ssh_fails c n \<and> c n = ConnectOK \<longrightarrow>
        fst (async_ssh c d) = Proceeds \<and>
        timeline (snd (async_ssh c d)) =
          concat (replicate n [Connect, Sleep 1]) @
          [Connect, ExecCommand (''$SHELL -i -c '' @ [SQUOTE] @ cmd d @ [SQUOTE])])"
  using connect_exhausted [of c d] connect_settled [of n c e d] by blast

theorem async_ssh_retries_witness:
  "fst (async_ssh (\<lambda>i. SSHError ''Authentication failed.'') example_dict) = Exits 1
   \<and> timeline (snd (async_ssh (\<lambda>i. SSHError ''Authentication failed.'') example_dict)) =
       [Connect, Sleep 1, Connect, Sleep 1, Connect, ProcessExit 1]
   \<and> fst (async_ssh (\<lambda>i. if i = 0 then SSHError ''banner'' else OtherError ''refused'')
             example_dict) = Raises ''refused''
   \<and> timeline (snd (async_ssh (\<lambda>i. if i = 0 then SSHError ''banner'' else OtherError ''refused'')
             example_dict)) = [Connect, Sleep 1, Connect]
   \<and> fst (async_ssh (\<lambda>i. if i < 2 then SSHError ''banner'' else ConnectOK) example_dict)
       = Proceeds
   \<and> timeline (snd (async_ssh (\<lambda>i. if i < 2 then SSHError ''banner'' else ConnectOK)
             example_dict)) =
       [Connect, Sleep 1, Connect, Sleep 1, Connect,
        ExecCommand (''$SHELL -i -c '' @ [SQUOTE] @
                     ''python -m distributed.cli.dask_scheduler --port 8786'' @ [SQUOTE])]"
proof -
  have f3: "ssh_fails (\<lambda>i. SSHError ''Authentication failed.'') 3"
    by (simp add: ssh_fails_def numeral_3_eq_3)
  have f1: "ssh_fails (\<lambda>i. if i = 0 then SSHError ''banner'' else OtherError ''refused'') 1"
    by (simp add: ssh_fails_def)
  have f2: "ssh_fails (\<lambda>i. if i < 2 then SSHError ''banner'' else ConnectOK) 2"
    by (simp add: ssh_fails_def numeral_2_eq_2)
  from f3 async_ssh_retries [of "\<lambda>i. SSHError ''Authentication failed.''" example_dict]
  have a: "fst (async_ssh (\<lambda>i. SSHError ''Authentication failed.'') example_dict) = Exits 1
    \<and> timeline (snd (async_ssh (\<lambda>i. SSHError ''Authentication failed.'') example_dict)) =
       [Connect, Sleep 1, Connect, Sleep 1, Connect, ProcessExit 1]"
    by blast
  from f1 async_ssh_retries
            [of "\<lambda>i. if i = 0 then SSHError ''banner'' else OtherError ''refused''" example_dict
                1 "''refused''"]
  have b: "fst (async_ssh (\<lambda>i. if i = 0 then SSHError ''banner'' else OtherError ''refused'')
             example_dict) = Raises ''refused''
   \<and> timeline (snd (async_ssh (\<lambda>i. if i = 0 then SSHError ''banner'' else OtherError ''refused'')
             example_dict)) = [Connect, Sleep 1, Connect]"
    by simp
  from f2 async_ssh_retries
            [of "\<lambda>i. if i < 2 then SSHError ''banner'' else ConnectOK" example_dict 2]
  have c: "fst (async_ssh (\<lambda>i. if i < 2 then SSHError ''banner'' else ConnectOK) example_dict)
       = Proceeds
   \<and> timeline (snd (async_ssh (\<lambda>i. if i < 2 then SSHError ''banner'' else ConnectOK)
             example_dict)) =
       [Connect, Sleep 1, Connect, Sleep 1, Connect,
        ExecCommand (''$SHELL -i -c '' @ [SQUOTE] @
                     ''python -m distributed.cli.dask_scheduler --port 8786'' @ [SQUOTE])]"
    by (simp add: example_dict_def numeral_2_eq_2)
  from a b c show ?thesis by blast
qed

lemma read_from_stdout_events:
  "snd (read_from_stdout d rs w) =
     w\<lparr>events := events w @ map (\<lambda>l. Put (output_queue d) (stdout_entry d (rstrip l))) (relayed rs)\<rparr>"
  by (induction d rs w rule: read_from_stdout.induct) (simp_all add: put_def emit_def)

lemma read_from_stderr_events:
  "snd (read_from_stderr d rs w) =
     w\<lparr>events := events w @ map (\<lambda>l. Put (output_queue d) (stderr_entry d (rstrip l))) (relayed rs)\<rparr>"
  by (induction d rs w rule: read_from_stderr.induct) (simp_all add: put_def emit_def)

lemma rstrip_decomposition:
  "\<exists>ws. l = rstrip l @ ws \<and> list_all is_space ws"
proof -
  have "rev (takeWhile is_space (rev l) @ dropWhile is_space (rev l)) = l"
    by (simp only: takeWhile_dropWhile_id rev_rev_ident)
  then have "l = rstrip l @ rev (takeWhile is_space (rev l))"
    by (simp only: rev_append rstrip_def)
  moreover have "list_all is_space (rev (takeWhile is_space (rev l)))"
    by (auto simp: list_all_iff dest: set_takeWhileD)
  ultimately show ?thesis by blast
qed

lemma rstrip_last: "rstrip l \<noteq> [] \<Longrightarrow> \<not> is_space (last (rstrip l))"
  unfolding rstrip_def using hd_dropWhile [of is_space "rev l"] by (simp add: last_rev)

lemma entries_coincide:
  "(stdout_entry d a = stderr_entry d b) = (a = FAIL @ b @ ENDC)"
  by (simp add: stdout_entry_def stderr_entry_def)

lemma entries_of_same_line_differ: "stderr_entry d a \<noteq> stdout_entry d a"
proof
  assume "stderr_entry d a = stdout_entry d a"
  then have "a = FAIL @ a @ ENDC"
    by (simp add: stdout_entry_def stderr_entry_def)
  then have "length a = length (FAIL @ a @ ENDC)"
    by (rule arg_cong)
  then show False by (simp add: FAIL_def)
qed

text \<open>
  Claim C6, amended. A reader relays the lines it gets before the first timeout or end
  of stream, in order: each stripped of its trailing whitespace and put on the output
  queue after the label, the lines of stderr between the failure colour and the reset
  in addition. The entry of a stderr line differs from the entry of the same line on
  stdout, and is the entry of some stdout line exactly when that stdout line, stripped,
  is itself the failure colour, the stripped stderr line and the reset.
\<close>

theorem relayed_lines:
  "snd (read_from_stdout d rs w) =
     w\<lparr>events := events w @
          map (\<lambda>l. Put (output_queue d) (''[ '' @ label d @ '' ] : '' @ rstrip l)) (relayed rs)\<rparr>
   \<and> snd (read_from_stderr d rs w) =
     w\<lparr>events := events w @
          map (\<lambda>l. Put (output_queue d) (''[ '' @ label d @ '' ] : '' @ FAIL @ rstrip l @ ENDC))
              (relayed rs)\<rparr>
   \<and> (\<exists>ws. l = rstrip l @ ws \<and> list_all is_space ws)
   \<and> (rstrip l \<noteq> [] \<longrightarrow> \<not> is_space (last (rstrip l)))
   \<and> stderr_entry d (rstrip l) \<noteq> stdout_entry d (rstrip l)
   \<and> ((stdout_entry d (rstrip l) = stderr_entry d (rstrip l')) =
        (rstrip l = FAIL @ rstrip l' @ ENDC))"
  using rstrip_decomposition [of l] rstrip_last [of l]
  by (simp add: read_from_stdout_events read_from_stderr_events entries_coincide
      entries_of_same_line_differ)
    (simp add: stdout_entry_def stderr_entry_def)

theorem relayed_lines_witness:
  "snd (read_from_stdout example_dict
          [Line (''ready  '' @ [CHR 0x0A]), Timeout, Line ''late''] example_world) =
     example_world\<lparr>events := [Put 1 ''[ scheduler ] : ready'']\<rparr>
   \<and> snd (read_from_stderr example_dict
          [Line (''ready  '' @ [CHR 0x0A]), Timeout, Line ''late''] example_world) =
     example_world\<lparr>events := [Put 1 (''[ scheduler ] : '' @ FAIL @ ''ready'' @ ENDC)]\<rparr>
   \<and> rstrip (''ready  '' @ [CHR 0x0A]) = ''ready''
   \<and> rstrip (''ok'' @ [CHR 0xA0, CHR 0x85, CHR 0x0A]) = ''ok''
   \<and> \<not> is_space (last (rstrip (''ready  '' @ [CHR 0x0A])))"
proof -
  have nbsp: "rstrip (''ok'' @ [CHR 0xA0, CHR 0x85, CHR 0x0A]) = ''ok''"
    by (simp add: rstrip_def is_space_def)
  have r: "rstrip (''ready  '' @ [CHR 0x0A]) = ''ready''"
    by (simp add: rstrip_def is_space_def)
  note t = relayed_lines [of example_dict "[Line (''ready  '' @ [CHR 0x0A]), Timeout, Line ''late'']"
                            example_world "''ready  '' @ [CHR 0x0A]" "[]"]
  have a: "snd (read_from_stdout example_dict
              [Line (''ready  '' @ [CHR 0x0A]), Timeout, Line ''late''] example_world) =
           example_world\<lparr>events := [Put 1 ''[ scheduler ] : ready'']\<rparr>"
    using t [THEN conjunct1]
    by (simp add: rstrip_def is_space_def put_def emit_def stdout_entry_def example_dict_def
        example_world_def)
  have b: "snd (read_from_stderr example_dict
              [Line (''ready  '' @ [CHR 0x0A]), Timeout, Line ''late''] example_world) =
           example_world\<lparr>events := [Put 1 (''[ scheduler ] : '' @ FAIL @ ''ready'' @ ENDC)]\<rparr>"
    using t [THEN conjunct2, THEN conjunct1]
    by (simp add: rstrip_def is_space_def put_def emit_def stderr_entry_def example_dict_def
        example_world_def)
  have c: "\<not> is_space (last (rstrip (''ready  '' @ [CHR 0x0A])))"
    using t [THEN conjunct2, THEN conjunct2, THEN conjunct2, THEN conjunct1]
    by (simp add: rstrip_def is_space_def)
  from a b c r nbsp show ?thesis by (simp only: simp_thms)
qed

text \<open>
  Claim C6 as stated fails: a line of stdout that carries the colour codes itself and a
  line of stderr leave the same entry on the output queue.
\<close>

theorem stderr_not_distinguishable_counterexample:
  "snd (read_from_stdout example_dict [Line (FAIL @ ''lost'' @ ENDC @ [CHR 0x0A])] example_world)
     = snd (read_from_stderr example_dict [Line (''lost'' @ [CHR 0x0A])] example_world)
   \<and> snd (read_from_stderr example_dict [Line (''lost'' @ [CHR 0x0A])] example_world)
     = example_world\<lparr>events := [Put 1 (''[ scheduler ] : '' @ FAIL @ ''lost'' @ ENDC)]\<rparr>"
  by (simp add: put_def emit_def stdout_entry_def stderr_entry_def rstrip_def is_space_def
      FAIL_def ENDC_def example_dict_def example_world_def)

end
